theory Spec2Isabelle
  imports Main
begin

section \<open>JavaScript values and string operations used by the scanner\<close>

text \<open>
  Strings are lists of bytes. The scanner's string tests (\<open>startsWith\<close>, \<open>includes\<close>,
  \<open>replace\<close> with a string pattern, \<open>toLowerCase\<close>, \<open>trim\<close>) are modelled on ASCII text:
  case folding touches the letters A-Z only and white space is TAB, LF, VT, FF, CR and
  SPACE.
\<close>

fun startsWith :: "string \<Rightarrow> string \<Rightarrow> bool" where
  "startsWith s [] = True"
| "startsWith [] (p # ps) = False"
| "startsWith (c # cs) (p # ps) = (c = p \<and> startsWith cs ps)"

fun includesStr :: "string \<Rightarrow> string \<Rightarrow> bool" where
  "includesStr [] t = (t = [])"
| "includesStr (c # cs) t = (startsWith (c # cs) t \<or> includesStr cs t)"

text \<open>\<open>s.replace(pat, rep)\<close> with a string pattern replaces the first occurrence only.\<close>

fun replaceFirst :: "string \<Rightarrow> string \<Rightarrow> string \<Rightarrow> string" where
  "replaceFirst [] pat rep = (if pat = [] then rep else [])"
| "replaceFirst (c # cs) pat rep =
     (if startsWith (c # cs) pat then rep @ drop (length pat) (c # cs)
      else c # replaceFirst cs pat rep)"

definition lowerTable :: "(char \<times> char) list" where
  "lowerTable = zip ''ABCDEFGHIJKLMNOPQRSTUVWXYZ'' ''abcdefghijklmnopqrstuvwxyz''"

definition toLowerChar :: "char \<Rightarrow> char" where
  "toLowerChar c = (case map_of lowerTable c of Some d \<Rightarrow> d | None \<Rightarrow> c)"

definition toLowerCase :: "string \<Rightarrow> string" where
  "toLowerCase s = map toLowerChar s"

definition isWhiteSpace :: "char \<Rightarrow> bool" where
  "isWhiteSpace c = (c \<in> set [CHR 0x09, CHR 0x0A, CHR 0x0B, CHR 0x0C, CHR 0x0D, CHR '' ''])"

definition trim :: "string \<Rightarrow> string" where
  "trim s = rev (dropWhile isWhiteSpace (rev (dropWhile isWhiteSpace s)))"

text \<open>
  The fields of the model's JSON answer are read through JavaScript's truthiness.
  A value that is a boolean or \<open>undefined\<close> is a \<open>bool option\<close> (\<open>None\<close> is
  \<open>undefined\<close>); \<open>a && b\<close> yields \<open>a\<close> when \<open>a\<close> is falsy and \<open>b\<close> otherwise,
  \<open>a || b\<close> yields \<open>a\<close> when \<open>a\<close> is truthy and \<open>b\<close> otherwise, and \<open>!a\<close> is always
  a boolean.
\<close>

definition truthy :: "bool option \<Rightarrow> bool" where
  "truthy v = (v = Some True)"

definition js_and :: "bool option \<Rightarrow> bool option \<Rightarrow> bool option" where
  "js_and a b = (if truthy a then b else a)"

definition js_or :: "bool option \<Rightarrow> bool option \<Rightarrow> bool option" where
  "js_or a b = (if truthy a then a else b)"

definition js_not :: "bool option \<Rightarrow> bool option" where
  "js_not a = Some (\<not> truthy a)"

section \<open>Data model (scanner.ts)\<close>

datatype severity = low | medium | high | critical

record piiExposure =
  detected :: bool
  types :: "string list"
  severity :: severity

text \<open>
  The object obtained from the text-generation service's answer (\<open>analysis\<close>, of
  TypeScript type \<open>any\<close>). Every field the scanner reads is optional: \<open>None\<close> is a
  field that is absent from the JSON object. Present fields carry the type the prompt
  asks for (booleans, a number, an array of strings). The number is an integer here; a
  \<open>riskScore\<close> that is not a number, on which the code's arithmetic yields a string or
  \<open>NaN\<close>, is outside the model, so every statement below about the score is about
  numeric scores.
\<close>

record analysis =
  hasCookieBanner :: "bool option"
  hasPrivacyPolicy :: "bool option"
  hasAiFeatures :: "bool option"
  hasAiDisclosure :: "bool option"
  hasBiometricConsent :: "bool option"
  socialScoring :: "bool option"
  discrimination :: "bool option"
  adaIssues :: "bool option"
  trustSignals :: "bool option"
  riskScore :: "int option"
  issues :: "string list option"
  piiExposure :: "piiExposure option"

record securityHeaders =
  hasCSP :: bool
  hasXFrameOptions :: bool
  hasHSTS :: bool
  hasXContentTypeOptions :: bool
  score :: int

record thirdPartyScripts =
  googleAnalytics :: bool
  facebookPixel :: bool
  hotjar :: bool
  intercom :: bool
  other :: "string list"
  privacyPolicyMentions :: bool

record sslValidation =
  hasSSL :: bool
  httpsEnforced :: bool
  certificateValid :: bool
  mixedContent :: bool

text \<open>
  The result record. \<open>aiRetentionIssues\<close>, \<open>shadowAiIssues\<close> and \<open>cureNoticeEligible\<close>
  are computed with \<open>&&\<close> from fields that may be absent, so they can be \<open>undefined\<close>
  at run time and are \<open>bool option\<close> here. The optional evidence fields are \<open>None\<close>
  when the returned object literal does not set them. \<open>scanData\<close>, a serialised
  debugging snapshot that contains the current time, is left out.
\<close>

record ScanResult =
  success :: bool
  riskScore :: int
  hasCookieBanner :: bool
  hasPrivacyPolicy :: bool
  hasAiFeatures :: bool
  hasAiDisclosure :: bool
  adaIssues :: bool
  aiRetentionIssues :: "bool option"
  gdprIssues :: bool
  shadowAiIssues :: "bool option"
  detectedIssues :: "string list"
  securityHeaders :: "securityHeaders option"
  thirdPartyScripts :: "thirdPartyScripts option"
  sslValidation :: "sslValidation option"
  piiExposure :: "piiExposure option"
  cureNoticeEligible :: "bool option"

section \<open>scanner-utils.ts\<close>

subsection \<open>determineCureEligibility\<close>

definition hasCurableViolations :: "analysis \<Rightarrow> bool option" where
  "hasCurableViolations a =
     js_or (js_or (js_or
       (js_and (analysis.hasAiFeatures a) (js_not (analysis.hasAiDisclosure a)))
       (js_not (analysis.hasPrivacyPolicy a)))
       (js_not (analysis.hasCookieBanner a)))
       (analysis.adaIssues a)"

text \<open>
  \<open>analysis.piiExposure?.severity === 'critical'\<close>: the optional chain gives
  \<open>undefined\<close> when \<open>piiExposure\<close> is absent, and the strict comparison is then false.
  The scanner calls \<open>determineCureEligibility\<close> after it has read \<open>analysis.riskScore\<close>,
  so the argument is never \<open>null\<close> there; the \<open>null\<close> answer is a branch of
  \<open>scanBody\<close> below.
\<close>

definition severityIs :: "analysis \<Rightarrow> severity \<Rightarrow> bool" where
  "severityIs a s =
     (case analysis.piiExposure a of None \<Rightarrow> False | Some p \<Rightarrow> severity p = s)"

definition hasNonCurableViolations :: "analysis \<Rightarrow> bool option" where
  "hasNonCurableViolations a =
     js_or (js_or (analysis.socialScoring a) (analysis.discrimination a))
       (Some (severityIs a critical \<or> severityIs a high))"

definition determineCureEligibility :: "analysis \<Rightarrow> bool option" where
  "determineCureEligibility a =
     js_and (hasCurableViolations a) (js_not (hasNonCurableViolations a))"

subsection \<open>analyzeSecurityHeaders\<close>

text \<open>
  What the outside world answers during one scan. \<open>headFetch\<close> is the \<open>HEAD\<close>
  request of \<open>analyzeSecurityHeaders\<close>: the (lower-case) names of the response
  headers, or \<open>None\<close> when \<open>fetch\<close> throws. \<open>httpProbe\<close> is the \<open>HEAD\<close> request
  over plain HTTP in \<open>validateSSL\<close>: the status, or \<open>None\<close> when \<open>fetch\<close> throws.
  \<open>firecrawl\<close> is the scrape request. \<open>claude\<close> is the outcome of the one call of
  \<open>invokeClaudeSonnet\<close>: \<open>Inl m\<close> when it throws an error with message \<open>m\<close>,
  \<open>Inr t\<close> when it returns the text \<open>t\<close>. \<open>JSON_parse\<close> is the platform's
  \<open>JSON.parse\<close>. \<open>platformURL\<close> is the platform's URL parser on the strings the
  model of \<open>new URL\<close> below does not decide itself.
\<close>

datatype scrapeResponse =
    ScrapeThrows string
  | ScrapeNotOk nat string
  | ScrapeOk string "string list" string

datatype jsonParse =
    SyntaxError string
  | JsonNull
  | JsonValue analysis

record URL =
  protocol :: string
  hostname :: string

record world =
  platformURL :: "string \<Rightarrow> URL option"
  firecrawl :: "string \<Rightarrow> scrapeResponse"
  headFetch :: "string \<Rightarrow> string list option"
  httpProbe :: "string \<Rightarrow> nat option"
  claude :: "string + string"
  JSON_parse :: "string \<Rightarrow> jsonParse"

datatype call =
    CallFirecrawl string
  | CallHead string
  | CallHttpProbe string
  | CallClaude

definition analyzeSecurityHeaders :: "world \<Rightarrow> string \<Rightarrow> securityHeaders" where
  "analyzeSecurityHeaders w url =
     (case headFetch w url of
        None \<Rightarrow>
          \<lparr> hasCSP = False, hasXFrameOptions = False, hasHSTS = False,
            hasXContentTypeOptions = False, score = 0 \<rparr>
      | Some headers \<Rightarrow>
          (let csp = (''content-security-policy'' \<in> set headers
                      \<or> ''content-security-policy-report-only'' \<in> set headers);
               xfo = (''x-frame-options'' \<in> set headers);
               hsts = (''strict-transport-security'' \<in> set headers);
               xcto = (''x-content-type-options'' \<in> set headers);
               s0 = (0::int);
               s1 = (if csp then s0 + 25 else s0);
               s2 = (if xfo then s1 + 25 else s1);
               s3 = (if hsts then s2 + 25 else s2);
               s4 = (if xcto then s3 + 25 else s3)
           in \<lparr> hasCSP = csp, hasXFrameOptions = xfo, hasHSTS = hsts,
                hasXContentTypeOptions = xcto, score = s4 \<rparr>))"

subsection \<open>analyzeThirdPartyScripts\<close>

text \<open>
  The catalogue of trackers. A pattern such as \<open>/segment\.(com|io)/i\<close> is the list
  of its alternatives; the case-insensitive test is the substring test on the
  lower-cased markup.
\<close>

definition trackers :: "(string \<times> string list) list" where
  "trackers =
     [ (''Google Tag Manager'', [''googletagmanager.com'']),
       (''Mixpanel'', [''mixpanel.com'']),
       (''Segment'', [''segment.com'', ''segment.io'']),
       (''Amplitude'', [''amplitude.com'']),
       (''Heap Analytics'', [''heapanalytics.com'']),
       (''FullStory'', [''fullstory.com'']),
       (''Crazy Egg'', [''crazyegg.com'']),
       (''Kissmetrics'', [''kissmetrics.com'']),
       (''Hubspot'', [''hubspot.com'']),
       (''Drift'', [''drift.com'']),
       (''Zendesk'', [''zendesk.com'']),
       (''LiveChat'', [''livechatinc.com'']),
       (''Olark'', [''olark.com'']) ]"

definition patternTest :: "string list \<Rightarrow> string \<Rightarrow> bool" where
  "patternTest alternatives html = list_ex (includesStr (toLowerCase html)) alternatives"

text \<open>\<open>[...new Set(xs)]\<close> keeps the first occurrence of every element.\<close>

definition dedupe :: "string list \<Rightarrow> string list" where
  "dedupe xs = rev (remdups (rev xs))"

definition analyzeThirdPartyScripts :: "string \<Rightarrow> string \<Rightarrow> thirdPartyScripts" where
  "analyzeThirdPartyScripts html content =
     (let htmlLower = toLowerCase html;
          contentLower = toLowerCase content;
          ga = (includesStr htmlLower ''google-analytics.com'' \<or> includesStr htmlLower ''gtag.js''
                \<or> includesStr htmlLower ''ga.js'');
          fb = (includesStr htmlLower ''facebook.net/en_us/fbevents.js''
                \<or> includesStr htmlLower ''connect.facebook.net'');
          hj = (includesStr htmlLower ''hotjar.com'' \<or> includesStr htmlLower ''static.hotjar.com'');
          ic = (includesStr htmlLower ''intercom.io'' \<or> includesStr htmlLower ''widget.intercom.io'');
          found = map fst (filter (\<lambda>t. patternTest (snd t) html) trackers);
          found = (if ga then found @ [''Google Analytics''] else found);
          found = (if fb then found @ [''Facebook Pixel''] else found);
          found = (if hj then found @ [''Hotjar''] else found);
          found = (if ic then found @ [''Intercom''] else found);
          mentions = (includesStr contentLower ''google analytics''
                      \<or> includesStr contentLower ''facebook pixel''
                      \<or> includesStr contentLower ''tracking''
                      \<or> includesStr contentLower ''third-party'')
      in \<lparr> googleAnalytics = ga, facebookPixel = fb, hotjar = hj, intercom = ic,
           other = dedupe found, privacyPolicyMentions = mentions \<rparr>)"

section \<open>The platform's URL parser\<close>

text \<open>
  \<open>new URL(s)\<close> follows the URL Standard. The scanner only calls it on strings that
  start with \<open>http://\<close> or \<open>https://\<close>, and only reads \<open>protocol\<close> and
  \<open>hostname\<close>. The model decides the printable-ASCII inputs whose host is an ordinary
  domain: after the scheme every further slash or backslash is skipped; the authority
  ends at the first slash, backslash, question mark or hash; the host follows the last
  at-sign and ends at the first colon; an empty host, a port that is not a decimal number
  of at most 65535 and a host with a forbidden code point are failures (\<open>None\<close>, the
  constructor throws); otherwise the host name is the lower-cased host. Inputs that need
  the IPv6, IPv4-number, percent-decoding or Punycode steps of the standard, hold bytes
  outside printable ASCII, or start with another scheme are answered by \<open>platformURL\<close>.
  The character \<open>!\<close> is not a forbidden host code point.
\<close>

definition isPrintable :: "char \<Rightarrow> bool" where
  "isPrintable c = (let n = (of_char c :: nat) in 32 \<le> n \<and> n \<le> 126)"

definition isDigit :: "char \<Rightarrow> bool" where
  "isDigit c = (let n = (of_char c :: nat) in 48 \<le> n \<and> n \<le> 57)"

definition isSlash :: "char \<Rightarrow> bool" where
  "isSlash c = (c = CHR ''/'' \<or> c = CHR 0x5C)"

definition isAuthorityEnd :: "char \<Rightarrow> bool" where
  "isAuthorityEnd c = (c = CHR ''/'' \<or> c = CHR 0x5C \<or> c = CHR ''?'' \<or> c = CHR ''#'')"

definition hostForbidden :: "char \<Rightarrow> bool" where
  "hostForbidden c =
     (c \<in> set [CHR '' '', CHR ''<'', CHR ''>'', CHR ''['', CHR '']'', CHR ''^'', CHR ''|''])"

definition afterLastAt :: "string \<Rightarrow> string" where
  "afterLastAt s = rev (takeWhile (\<lambda>c. c \<noteq> CHR ''@'') (rev s))"

definition portValue :: "string \<Rightarrow> nat" where
  "portValue p = foldl (\<lambda>n c. 10 * n + (of_char c - 48)) 0 p"

definition portOk :: "string \<Rightarrow> bool" where
  "portOk p = (list_all isDigit p \<and> portValue p \<le> 65535)"

definition lastLabel :: "string \<Rightarrow> string" where
  "lastLabel h =
     (let h' = (if h \<noteq> [] \<and> last h = CHR ''.'' then butlast h else h)
      in rev (takeWhile (\<lambda>c. c \<noteq> CHR ''.'') (rev h')))"

definition needsPlatform :: "string \<Rightarrow> bool" where
  "needsPlatform host =
     (CHR ''%'' \<in> set host \<or> includesStr (toLowerCase host) ''xn--''
      \<or> (case lastLabel host of [] \<Rightarrow> False | c # cs \<Rightarrow> isDigit c))"

definition parseSpecial :: "world \<Rightarrow> string \<Rightarrow> string \<Rightarrow> string \<Rightarrow> URL option" where
  "parseSpecial w s proto rest =
     (let authority = takeWhile (\<lambda>c. \<not> isAuthorityEnd c) (dropWhile isSlash rest);
          hostport = afterLastAt authority;
          host = takeWhile (\<lambda>c. c \<noteq> CHR '':'') hostport;
          port = drop (length host + 1) hostport
      in if host = [] then None
         else if hd host = CHR ''['' then platformURL w s
         else if \<not> portOk port then None
         else if list_ex hostForbidden host then None
         else if needsPlatform host then platformURL w s
         else Some \<lparr> protocol = proto, hostname = toLowerCase host \<rparr>)"

definition newURL :: "world \<Rightarrow> string \<Rightarrow> URL option" where
  "newURL w s =
     (let s' = rev (dropWhile (\<lambda>c. c = CHR '' '') (rev s))
      in if \<not> list_all isPrintable s' then platformURL w s
         else if startsWith s' ''https://'' then parseSpecial w s ''https:'' (drop 8 s')
         else if startsWith s' ''http://'' then parseSpecial w s ''http:'' (drop 7 s')
         else platformURL w s)"

subsection \<open>validateSSL\<close>

definition validateSSL :: "world \<Rightarrow> string \<Rightarrow> string \<Rightarrow> sslValidation \<times> call list" where
  "validateSSL w url html =
     (case newURL w url of
        None \<Rightarrow>
          (\<lparr> hasSSL = False, httpsEnforced = False, certificateValid = False,
             mixedContent = False \<rparr>, [])
      | Some parsedUrl \<Rightarrow>
          (let ssl = (protocol parsedUrl = ''https:'');
               mixed = (ssl \<and> (includesStr html (''src='' @ [CHR 0x22] @ ''http://'')
                               \<or> includesStr html (''src='' @ [CHR 0x27] @ ''http://'')
                               \<or> includesStr html (''href='' @ [CHR 0x22] @ ''http://'')));
               httpUrl = replaceFirst url ''https://'' ''http://'';
               enforced = (if ssl then
                             (case httpProbe w httpUrl of
                                Some status \<Rightarrow> status = 301 \<or> status = 308
                              | None \<Rightarrow> True)
                           else False)
           in (\<lparr> hasSSL = ssl, httpsEnforced = enforced, certificateValid = ssl,
                 mixedContent = mixed \<rparr>,
               if ssl then [CallHttpProbe httpUrl] else [])))"

section \<open>scanner.ts\<close>

record BedrockConfig =
  accessKeyId :: string
  secretAccessKey :: string
  region :: string

definition KNOWN_COMPLIANT_DOMAINS :: "string list" where
  "KNOWN_COMPLIANT_DOMAINS =
     [ ''google.com'', ''amazon.com'', ''microsoft.com'', ''apple.com'', ''meta.com'',
       ''facebook.com'', ''stripe.com'', ''shopify.com'', ''notion.so'', ''figma.com'',
       ''slack.com'', ''zoom.us'', ''salesforce.com'', ''adobe.com'', ''netflix.com'',
       ''spotify.com'', ''github.com'', ''gitlab.com'', ''atlassian.net'', ''dropbox.com'',
       ''box.com'', ''hubspot.com'', ''mailchimp.com'', ''squarespace.com'', ''wix.com'',
       ''wordpress.com'', ''cloudflare.com'', ''aws.amazon.com'', ''azure.microsoft.com'',
       ''oracle.com'', ''ibm.com'', ''paypal.com'', ''square.com'',
       ''complianceshieldhq.com'' ]"

definition isKnownCompliant :: "string \<Rightarrow> bool" where
  "isKnownCompliant domain = list_ex (\<lambda>d. includesStr domain d) KNOWN_COMPLIANT_DOMAINS"

text \<open>
  The four error returns of \<open>analyzeUrl\<close> are the same object literal up to the
  issue list: \<open>success\<close> false, score 0, every flag false, no evidence fields.
\<close>

definition errorResult :: "string list \<Rightarrow> ScanResult" where
  "errorResult msgs =
     \<lparr> success = False, riskScore = 0, hasCookieBanner = False, hasPrivacyPolicy = False,
       hasAiFeatures = False, hasAiDisclosure = False, adaIssues = False,
       aiRetentionIssues = Some False, gdprIssues = False, shadowAiIssues = Some False,
       detectedIssues = msgs, securityHeaders = None, thirdPartyScripts = None,
       sslValidation = None, piiExposure = None, cureNoticeEligible = None \<rparr>"

definition arrow :: string where
  "arrow = [CHR 0xE2, CHR 0x86, CHR 0x92]"

definition missingFirecrawlKey :: ScanResult where
  "missingFirecrawlKey = errorResult
     [ ''TECHNICAL ERROR: FIRECRAWL_API_KEY not configured'',
       ''Add your Firecrawl API key in Settings '' @ arrow @ '' Secrets'',
       ''Get API key from https://firecrawl.dev'' ]"

definition missingBedrockConfig :: ScanResult where
  "missingBedrockConfig = errorResult
     [ ''TECHNICAL ERROR: AWS Bedrock credentials not configured'',
       ''Add AWS_ACCESS_KEY_ID, AWS_SECRET_ACCESS_KEY, and AWS_REGION in Settings ''
         @ arrow @ '' Secrets'',
       ''Enable Claude 3.7 Sonnet in AWS Bedrock Console (us-east-1)'' ]"

definition invalidUrl :: ScanResult where
  "invalidUrl = errorResult [''Invalid URL format'']"

definition knownCompliantResult :: ScanResult where
  "knownCompliantResult =
     \<lparr> success = True, riskScore = 15, hasCookieBanner = True, hasPrivacyPolicy = True,
       hasAiFeatures = False, hasAiDisclosure = False, adaIssues = False,
       aiRetentionIssues = Some False, gdprIssues = False, shadowAiIssues = Some False,
       detectedIssues = [],
       securityHeaders = Some \<lparr> hasCSP = True, hasXFrameOptions = True, hasHSTS = True,
         hasXContentTypeOptions = True, score = 100 \<rparr>,
       thirdPartyScripts = None,
       sslValidation = Some \<lparr> hasSSL = True, httpsEnforced = True, certificateValid = True,
         mixedContent = False \<rparr>,
       piiExposure = None, cureNoticeEligible = Some False \<rparr>"

text \<open>\<open>let riskScore = analysis.riskScore || 50\<close>: zero is falsy, as an absent field is.\<close>

definition baseRiskScore :: "analysis \<Rightarrow> int" where
  "baseRiskScore a =
     (case analysis.riskScore a of None \<Rightarrow> 50 | Some n \<Rightarrow> if n \<noteq> 0 then n else 50)"

text \<open>The four conditional additions, before \<open>Math.min\<close>.\<close>

definition adjustRiskScore ::
  "int \<Rightarrow> sslValidation \<Rightarrow> securityHeaders \<Rightarrow> thirdPartyScripts \<Rightarrow> int" where
  "adjustRiskScore r0 ssl hdr tps =
     (let r1 = (if \<not> hasSSL ssl then r0 + 15 else r0);
          r2 = (if mixedContent ssl then r1 + 10 else r1);
          r3 = (if score hdr < 50 then r2 + 10 else r2);
          r4 = (if length (other tps) > 5 \<and> \<not> privacyPolicyMentions tps then r3 + 10 else r3)
      in r4)"

text \<open>
  From \<open>let riskScore = ...\<close> to the returned object literal of the success path.
\<close>

definition compileResult ::
  "analysis \<Rightarrow> securityHeaders \<Rightarrow> thirdPartyScripts \<Rightarrow> sslValidation \<Rightarrow> ScanResult" where
  "compileResult a hdr tps ssl =
     \<lparr> success = True,
       riskScore = min (adjustRiskScore (baseRiskScore a) ssl hdr tps) 100,
       hasCookieBanner = truthy (analysis.hasCookieBanner a),
       hasPrivacyPolicy = truthy (analysis.hasPrivacyPolicy a),
       hasAiFeatures = truthy (analysis.hasAiFeatures a),
       hasAiDisclosure = truthy (analysis.hasAiDisclosure a),
       adaIssues = truthy (analysis.adaIssues a),
       aiRetentionIssues =
         js_and (analysis.hasAiFeatures a) (js_not (analysis.hasPrivacyPolicy a)),
       gdprIssues =
         (\<not> truthy (analysis.hasCookieBanner a) \<or> \<not> truthy (analysis.hasPrivacyPolicy a)),
       shadowAiIssues =
         js_and (analysis.hasAiFeatures a) (js_not (analysis.hasAiDisclosure a)),
       detectedIssues = (case analysis.issues a of None \<Rightarrow> [] | Some xs \<Rightarrow> xs),
       securityHeaders = Some hdr,
       thirdPartyScripts = Some tps,
       sslValidation = Some ssl,
       piiExposure = Some \<lparr> detected = False, types = [], severity = low \<rparr>,
       cureNoticeEligible = determineCureEligibility a \<rparr>"

text \<open>
  The \<open>catch\<close> block. A thrown error is its message; the empty message is falsy and
  becomes \<open>Unknown error\<close>.
\<close>

definition userFriendlyError :: "string \<Rightarrow> string" where
  "userFriendlyError message =
     (let u = (if message = [] then ''Unknown error'' else message)
      in if includesStr u ''Access Denied'' \<or> includesStr u ''403'' then
           ''AWS Access Denied - Check IAM permissions for bedrock:InvokeModel''
         else if includesStr u ''404'' \<or> includesStr u ''Not Found'' then
           ''Model not found - Enable Claude 3.7 Sonnet in AWS Bedrock Console''
         else if includesStr u ''429'' \<or> includesStr u ''Throttl'' then
           ''AWS rate limit exceeded - Wait a moment and retry''
         else if includesStr u ''400'' \<or> includesStr u ''Bad Request'' then
           ''Invalid request format - Check model ID and region''
         else if includesStr message ''Firecrawl'' then
           ''Website scraping failed - Check FIRECRAWL_API_KEY''
         else u)"

definition scanFailed :: "string \<Rightarrow> ScanResult" where
  "scanFailed message = errorResult
     [ ''Scan failed: '' @ userFriendlyError message,
       ''This is a technical error, not a compliance issue with the target site.'' ]"

definition digitChar :: "nat \<Rightarrow> char" where
  "digitChar d = ''0123456789'' ! d"

function decimal :: "nat \<Rightarrow> string" where
  "decimal n = (if n < 10 then [digitChar n] else decimal (n div 10) @ [digitChar (n mod 10)])"
  by pat_completeness auto
termination
  by (relation "measure id") auto

declare decimal.simps [simp del]

definition nullTypeError :: string where
  "nullTypeError =
     ''Cannot read properties of null (reading '' @ [CHR 0x27] @ ''riskScore'' @ [CHR 0x27] @ '')''"

text \<open>
  The body of the second \<open>try\<close> after the known-domain check: \<open>Inl m\<close> when an error
  with message \<open>m\<close> is thrown, \<open>Inr r\<close> when \<open>r\<close> is returned, with the requests made.
  \<open>ScrapeThrows\<close> is a scrape request whose \<open>fetch\<close> or body decoding throws;
  \<open>ScrapeOk markdown links html\<close> holds the three fields of \<open>data\<close>, empty when
  absent.
\<close>

definition scanBody :: "world \<Rightarrow> string \<Rightarrow> (string + ScanResult) \<times> call list" where
  "scanBody w normalizedUrl =
     (case firecrawl w normalizedUrl of
        ScrapeThrows m \<Rightarrow> (Inl m, [CallFirecrawl normalizedUrl])
      | ScrapeNotOk status errorText \<Rightarrow>
          (Inl (''Firecrawl API error: '' @ decimal status @ '' - '' @ errorText),
           [CallFirecrawl normalizedUrl])
      | ScrapeOk content links html \<Rightarrow>
          if content = [] then
            (Inl ''Failed to scrape content - no markdown returned'',
             [CallFirecrawl normalizedUrl])
          else
            (let hdr = analyzeSecurityHeaders w normalizedUrl;
                 tps = analyzeThirdPartyScripts html content;
                 (ssl, sslCalls) = validateSSL w normalizedUrl html;
                 calls = [CallFirecrawl normalizedUrl, CallHead normalizedUrl] @ sslCalls
                         @ [CallClaude]
             in case claude w of
                  Inl m \<Rightarrow> (Inl m, calls)
                | Inr analysisText \<Rightarrow>
                    (case JSON_parse w analysisText of
                       SyntaxError m \<Rightarrow> (Inl m, calls)
                     | JsonNull \<Rightarrow> (Inl nullTypeError, calls)
                     | JsonValue a \<Rightarrow> (Inr (compileResult a hdr tps ssl), calls))))"

definition normalizeUrl :: "string \<Rightarrow> string" where
  "normalizeUrl url =
     (let normalizedUrl = trim url
      in if \<not> startsWith normalizedUrl ''http://'' \<and> \<not> startsWith normalizedUrl ''https://''
         then ''https://'' @ normalizedUrl
         else normalizedUrl)"

definition falsyKey :: "string option \<Rightarrow> bool" where
  "falsyKey k = (case k of None \<Rightarrow> True | Some s \<Rightarrow> s = [])"

definition analyzeUrl ::
  "world \<Rightarrow> string \<Rightarrow> string option \<Rightarrow> BedrockConfig option \<Rightarrow> ScanResult \<times> call list" where
  "analyzeUrl w url firecrawlApiKey bedrockConfig =
     (if falsyKey firecrawlApiKey then (missingFirecrawlKey, [])
      else if bedrockConfig = None then (missingBedrockConfig, [])
      else
        (let normalizedUrl = normalizeUrl url
         in case newURL w normalizedUrl of
              None \<Rightarrow> (invalidUrl, [])
            | Some u \<Rightarrow>
                (let domain = replaceFirst (hostname u) ''www.'' []
                 in if isKnownCompliant domain then (knownCompliantResult, [])
                    else
                      (case scanBody w normalizedUrl of
                         (Inl m, calls) \<Rightarrow> (scanFailed m, calls)
                       | (Inr r, calls) \<Rightarrow> (r, calls)))))"

section \<open>The specification's vocabulary\<close>

text \<open>
  Section 4.6 of the specification, in its own words. A finding is present when the
  model's field is true. Curable indicators: AI features present without disclosure;
  privacy policy absent; cookie banner absent; accessibility issues present. Non-curable
  indicators: social scoring detected; discrimination detected; sensitive-identifier
  exposure at critical or high severity, absent when no exposure record is given.
\<close>

definition curableIndicator :: "analysis \<Rightarrow> bool" where
  "curableIndicator a =
     ((analysis.hasAiFeatures a = Some True \<and> analysis.hasAiDisclosure a \<noteq> Some True)
      \<or> analysis.hasPrivacyPolicy a \<noteq> Some True
      \<or> analysis.hasCookieBanner a \<noteq> Some True
      \<or> analysis.adaIssues a = Some True)"

definition nonCurableIndicator :: "analysis \<Rightarrow> bool" where
  "nonCurableIndicator a =
     (analysis.socialScoring a = Some True
      \<or> analysis.discrimination a = Some True
      \<or> (case analysis.piiExposure a of
            None \<Rightarrow> False
          | Some p \<Rightarrow> severity p = critical \<or> severity p = high))"

text \<open>
  The fatal paths of the scan as the code has them: the content fetch fails (the request
  throws, answers with an error status, or returns no markdown), the model call fails,
  or the model's output is unparseable (\<open>JSON.parse\<close> throws, or yields \<open>null\<close>, whose
  first field read throws). The specification's wider notion of malformed output, an
  object that lacks required fields, is not among them: such an object is accepted.
\<close>

definition contentFetchFails :: "world \<Rightarrow> string \<Rightarrow> bool" where
  "contentFetchFails w url =
     (case firecrawl w url of ScrapeOk content links html \<Rightarrow> content = [] | _ \<Rightarrow> True)"

definition modelCallFails :: "world \<Rightarrow> bool" where
  "modelCallFails w = (case claude w of Inl m \<Rightarrow> True | Inr t \<Rightarrow> False)"

definition modelOutputUnparseable :: "world \<Rightarrow> bool" where
  "modelOutputUnparseable w =
     (case claude w of
        Inl m \<Rightarrow> False
      | Inr t \<Rightarrow> (case JSON_parse w t of JsonValue a \<Rightarrow> False | _ \<Rightarrow> True))"

section \<open>Sample inputs\<close>

definition emptyAnalysis :: analysis where
  "emptyAnalysis =
     \<lparr> analysis.hasCookieBanner = None, analysis.hasPrivacyPolicy = None,
       analysis.hasAiFeatures = None, analysis.hasAiDisclosure = None,
       hasBiometricConsent = None, socialScoring = None, discrimination = None,
       analysis.adaIssues = None, trustSignals = None, analysis.riskScore = None,
       issues = None, analysis.piiExposure = None \<rparr>"

text \<open>A site with nothing to report: every positive field true, every finding false.\<close>

definition cleanAnalysis :: "int \<Rightarrow> analysis" where
  "cleanAnalysis n =
     \<lparr> analysis.hasCookieBanner = Some True, analysis.hasPrivacyPolicy = Some True,
       analysis.hasAiFeatures = Some False, analysis.hasAiDisclosure = Some False,
       hasBiometricConsent = Some False, socialScoring = Some False,
       discrimination = Some False, analysis.adaIssues = Some False,
       trustSignals = Some True, analysis.riskScore = Some n, issues = Some [],
       analysis.piiExposure = None \<rparr>"

definition allHeaders :: securityHeaders where
  "allHeaders = \<lparr> hasCSP = True, hasXFrameOptions = True, hasHSTS = True,
     hasXContentTypeOptions = True, score = 100 \<rparr>"

definition noHeaders :: securityHeaders where
  "noHeaders = \<lparr> hasCSP = False, hasXFrameOptions = False, hasHSTS = False,
     hasXContentTypeOptions = False, score = 0 \<rparr>"

definition secureTransport :: sslValidation where
  "secureTransport = \<lparr> hasSSL = True, httpsEnforced = True, certificateValid = True,
     mixedContent = False \<rparr>"

definition worstTransport :: sslValidation where
  "worstTransport = \<lparr> hasSSL = False, httpsEnforced = False, certificateValid = False,
     mixedContent = True \<rparr>"

definition sixTrackerHtml :: string where
  "sixTrackerHtml =
     ''cdn.mixpanel.com cdn.Amplitude.com fullstory.com js.drift.com olark.com zendesk.com''"

definition fiveTrackerHtml :: string where
  "fiveTrackerHtml = ''cdn.mixpanel.com cdn.Amplitude.com fullstory.com js.drift.com olark.com''"

definition sampleConfig :: BedrockConfig where
  "sampleConfig = \<lparr> accessKeyId = ''AKIA'', secretAccessKey = ''secret'', region = ''us-east-1'' \<rparr>"

text \<open>
  A fragment of \<open>JSON.parse\<close>, enough for the examples: the empty object, \<open>null\<close>,
  and a syntax error for everything else.
\<close>

definition sampleParse :: "string \<Rightarrow> jsonParse" where
  "sampleParse t =
     (if t = ''{}'' then JsonValue emptyAnalysis
      else if t = ''null'' then JsonNull
      else SyntaxError ''Unexpected token'')"

text \<open>A world where the page is fetched and the model call has the given outcome.\<close>

definition replyWorld :: "string + string \<Rightarrow> world" where
  "replyWorld reply =
     \<lparr> platformURL = (\<lambda>s. None),
       firecrawl = (\<lambda>u. ScrapeOk ''# Welcome'' [] ''<html></html>''),
       headFetch = (\<lambda>u. Some [''strict-transport-security'', ''x-frame-options'']),
       httpProbe = (\<lambda>u. Some 301),
       claude = reply,
       JSON_parse = sampleParse \<rparr>"

text \<open>A world where the content fetcher cannot be reached.\<close>

definition offlineWorld :: world where
  "offlineWorld = (replyWorld (Inl ''unused'')) \<lparr> firecrawl := (\<lambda>u. ScrapeThrows ''fetch failed'') \<rparr>"

definition quietScripts :: thirdPartyScripts where
  "quietScripts = \<lparr> googleAnalytics = False, facebookPixel = False, hotjar = False,
     intercom = False, other = [], privacyPolicyMentions = False \<rparr>"

text \<open>
  What the third-party condition adds to the score before the clamp: the adjusted score
  with the detected scripts against the adjusted score with none.
\<close>

definition thirdPartyAdjustment ::
  "int \<Rightarrow> sslValidation \<Rightarrow> securityHeaders \<Rightarrow> thirdPartyScripts \<Rightarrow> int" where
  "thirdPartyAdjustment r ssl hdr tps =
     adjustRiskScore r ssl hdr tps - adjustRiskScore r ssl hdr (tps \<lparr> other := [] \<rparr>)"

section \<open>JavaScript truthiness\<close>

lemma truthy_simps:
  "truthy None = False" "truthy (Some b) = b"
  by (simp_all add: truthy_def)

lemma js_and_not_Some_True:
  "js_and a (js_not b) = Some True \<longleftrightarrow> a = Some True \<and> b \<noteq> Some True"
  by (cases a; cases b) (auto simp: js_and_def js_not_def truthy_def)

section \<open>Cure eligibility\<close>

lemma hasCurableViolations_truthy:
  "truthy (hasCurableViolations a) = curableIndicator a"
  unfolding hasCurableViolations_def curableIndicator_def js_or_def js_and_def js_not_def truthy_def
  by auto

lemma hasNonCurableViolations_truthy:
  "truthy (hasNonCurableViolations a) = nonCurableIndicator a"
  unfolding hasNonCurableViolations_def nonCurableIndicator_def severityIs_def js_or_def truthy_def
  by (auto split: option.splits)

text \<open>
  Claim C4. For every analysis object, \<open>determineCureEligibility\<close> returns \<open>true\<close>
  exactly when at least one curable indicator holds and no non-curable indicator holds.
  The two-by-two table: with a curable indicator the result is the boolean "no
  non-curable indicator"; without one the result is never \<open>true\<close>, whatever the
  non-curable indicators are.
\<close>

theorem cure_eligibility_iff:
  "(determineCureEligibility a = Some True \<longleftrightarrow> curableIndicator a \<and> \<not> nonCurableIndicator a)
   \<and> (curableIndicator a \<longrightarrow> determineCureEligibility a = Some (\<not> nonCurableIndicator a))
   \<and> (\<not> curableIndicator a \<longrightarrow> \<not> truthy (determineCureEligibility a))"
proof -
  have c: "truthy (hasCurableViolations a) = curableIndicator a"
    by (rule hasCurableViolations_truthy)
  have n: "truthy (hasNonCurableViolations a) = nonCurableIndicator a"
    by (rule hasNonCurableViolations_truthy)
  show ?thesis
  proof (cases "curableIndicator a")
    case True
    then have "determineCureEligibility a = Some (\<not> nonCurableIndicator a)"
      using c n by (simp add: determineCureEligibility_def js_and_def js_not_def)
    with True show ?thesis by simp
  next
    case False
    then have "determineCureEligibility a = hasCurableViolations a"
      using c by (simp add: determineCureEligibility_def js_and_def)
    moreover from False c have "\<not> truthy (hasCurableViolations a)"
      by simp
    ultimately show ?thesis using False by (simp add: truthy_def)
  qed
qed

theorem cure_eligibility_iff_witness:
  "determineCureEligibility (emptyAnalysis \<lparr> analysis.hasAiFeatures := Some True \<rparr>) = Some True
   \<and> determineCureEligibility (emptyAnalysis \<lparr> socialScoring := Some True \<rparr>) = Some False
   \<and> determineCureEligibility (cleanAnalysis 0) \<noteq> Some True
   \<and> determineCureEligibility ((cleanAnalysis 0) \<lparr> discrimination := Some True \<rparr>) \<noteq> Some True"
  using cure_eligibility_iff [of "emptyAnalysis \<lparr> analysis.hasAiFeatures := Some True \<rparr>"]
    cure_eligibility_iff [of "emptyAnalysis \<lparr> socialScoring := Some True \<rparr>"]
    cure_eligibility_iff [of "cleanAnalysis 0"]
    cure_eligibility_iff [of "(cleanAnalysis 0) \<lparr> discrimination := Some True \<rparr>"]
  by (simp add: emptyAnalysis_def cleanAnalysis_def curableIndicator_def nonCurableIndicator_def
      truthy_def)

section \<open>Risk aggregation\<close>

lemma riskScore_compileResult:
  "riskScore (compileResult a hdr tps ssl) = min (adjustRiskScore (baseRiskScore a) ssl hdr tps) 100"
  by (simp add: compileResult_def)

lemma adjustRiskScore_lower: "r \<le> adjustRiskScore r ssl hdr tps"
  by (simp add: adjustRiskScore_def Let_def)

lemma baseRiskScore_positive:
  "(case analysis.riskScore a of None \<Rightarrow> True | Some n \<Rightarrow> 0 \<le> n) \<Longrightarrow> 0 < baseRiskScore a"
  by (auto simp: baseRiskScore_def split: option.splits)

text \<open>
  What the aggregation step does guarantee, for a numeric base score: the final score
  is at most 100, and it is at least 0 when the base score is non-negative or absent.
\<close>

lemma riskScore_bounds_numeric:
  "riskScore (compileResult a hdr tps ssl) \<le> 100
   \<and> ((case analysis.riskScore a of None \<Rightarrow> True | Some n \<Rightarrow> 0 \<le> n)
        \<longrightarrow> 0 \<le> riskScore (compileResult a hdr tps ssl))"
proof -
  have upper: "riskScore (compileResult a hdr tps ssl) \<le> 100"
    by (simp add: riskScore_compileResult)
  have lower: "0 \<le> riskScore (compileResult a hdr tps ssl)"
    if "case analysis.riskScore a of None \<Rightarrow> True | Some n \<Rightarrow> 0 \<le> n"
  proof -
    from that have "0 < baseRiskScore a" by (rule baseRiskScore_positive)
    moreover have "baseRiskScore a \<le> adjustRiskScore (baseRiskScore a) ssl hdr tps"
      by (rule adjustRiskScore_lower)
    ultimately show ?thesis by (simp add: riskScore_compileResult)
  qed
  from upper lower show ?thesis by blast
qed

text \<open>
  Claim C1, on the code. The final score is meant to lie in the closed interval from 0
  to 100, but the aggregation step caps it with \<open>Math.min(riskScore, 100)\<close> only and
  never raises it to 0: a negative base score with no adjustment firing is returned
  unchanged, below the interval.
\<close>

theorem negative_base_passes_through:
  "analysis.riskScore a = Some n \<and> n < 0 \<and> hasSSL ssl \<and> \<not> mixedContent ssl \<and> 50 \<le> score hdr
      \<and> (length (other tps) \<le> 5 \<or> privacyPolicyMentions tps)
   \<longrightarrow> riskScore (compileResult a hdr tps ssl) = n
       \<and> \<not> (0 \<le> riskScore (compileResult a hdr tps ssl))"
  by (auto simp: compileResult_def baseRiskScore_def adjustRiskScore_def Let_def)

theorem negative_base_passes_through_witness:
  "riskScore (compileResult (cleanAnalysis (- 30)) allHeaders quietScripts secureTransport) = - 30
   \<and> \<not> (0 \<le> riskScore (compileResult (cleanAnalysis (- 30)) allHeaders quietScripts
            secureTransport))"
  using negative_base_passes_through [of "cleanAnalysis (- 30)" "- 30" secureTransport allHeaders
      quietScripts]
  by (simp add: cleanAnalysis_def allHeaders_def quietScripts_def secureTransport_def)

text \<open>
  Claim C2, on the code. A base score of 0 with no adjustment firing does not stay 0:
  \<open>analysis.riskScore || 50\<close> replaces the falsy 0 by 50. The other half of the claim
  holds: base 100 with all four adjustments is clamped to 100.
\<close>

theorem zero_base_scores_fifty:
  "(analysis.riskScore a = Some 0 \<and> hasSSL ssl \<and> \<not> mixedContent ssl \<and> 50 \<le> score hdr
      \<and> (length (other tps) \<le> 5 \<or> privacyPolicyMentions tps)
     \<longrightarrow> riskScore (compileResult a hdr tps ssl) = 50)
   \<and> (analysis.riskScore a = Some 100 \<and> \<not> hasSSL ssl \<and> mixedContent ssl \<and> score hdr < 50
      \<and> 5 < length (other tps) \<and> \<not> privacyPolicyMentions tps
     \<longrightarrow> riskScore (compileResult a hdr tps ssl) = 100)"
  by (auto simp: compileResult_def baseRiskScore_def adjustRiskScore_def Let_def)

theorem zero_base_scores_fifty_witness:
  "riskScore (compileResult (cleanAnalysis 0) allHeaders quietScripts secureTransport) = 50"
  using zero_base_scores_fifty [of "cleanAnalysis 0" secureTransport allHeaders quietScripts]
  by (simp add: cleanAnalysis_def allHeaders_def quietScripts_def secureTransport_def)

text \<open>
  Claim C5. For every answer of the model, \<open>aiRetentionIssues\<close> is true exactly when
  \<open>hasAiFeatures\<close> is true and \<open>hasPrivacyPolicy\<close> is not, and \<open>shadowAiIssues\<close> is true
  exactly when \<open>hasAiFeatures\<close> is true and \<open>hasAiDisclosure\<close> is not; on boolean inputs
  the flags are the conjunctions \<open>f \<and> \<not> p\<close> and \<open>f \<and> \<not> d\<close>. Both are computed by the
  aggregation step from these fields alone.
\<close>

theorem derived_flags:
  "(aiRetentionIssues (compileResult a hdr tps ssl) = Some True
      \<longleftrightarrow> analysis.hasAiFeatures a = Some True \<and> analysis.hasPrivacyPolicy a \<noteq> Some True)
   \<and> (shadowAiIssues (compileResult a hdr tps ssl) = Some True
      \<longleftrightarrow> analysis.hasAiFeatures a = Some True \<and> analysis.hasAiDisclosure a \<noteq> Some True)
   \<and> (analysis.hasAiFeatures a = Some f \<and> analysis.hasPrivacyPolicy a = Some p
      \<longrightarrow> aiRetentionIssues (compileResult a hdr tps ssl) = Some (f \<and> \<not> p))
   \<and> (analysis.hasAiFeatures a = Some f \<and> analysis.hasAiDisclosure a = Some d
      \<longrightarrow> shadowAiIssues (compileResult a hdr tps ssl) = Some (f \<and> \<not> d))"
proof -
  have r: "aiRetentionIssues (compileResult a hdr tps ssl)
           = js_and (analysis.hasAiFeatures a) (js_not (analysis.hasPrivacyPolicy a))"
    by (simp add: compileResult_def)
  have s: "shadowAiIssues (compileResult a hdr tps ssl)
           = js_and (analysis.hasAiFeatures a) (js_not (analysis.hasAiDisclosure a))"
    by (simp add: compileResult_def)
  have t: "js_and (Some x) (js_not (Some y)) = Some (x \<and> \<not> y)" for x y
    by (simp add: js_and_def js_not_def truthy_def)
  show ?thesis
    unfolding r s by (simp add: js_and_not_Some_True t)
qed

theorem derived_flags_witness:
  "aiRetentionIssues (compileResult
      (emptyAnalysis \<lparr> analysis.hasPrivacyPolicy := Some False,
         analysis.hasAiFeatures := Some True, analysis.hasAiDisclosure := Some True \<rparr>)
      allHeaders quietScripts secureTransport) = Some True
   \<and> shadowAiIssues (compileResult
      (emptyAnalysis \<lparr> analysis.hasPrivacyPolicy := Some False,
         analysis.hasAiFeatures := Some True, analysis.hasAiDisclosure := Some True \<rparr>)
      allHeaders quietScripts secureTransport) = Some False"
  using derived_flags [of "emptyAnalysis \<lparr> analysis.hasPrivacyPolicy := Some False,
      analysis.hasAiFeatures := Some True, analysis.hasAiDisclosure := Some True \<rparr>"
      allHeaders quietScripts secureTransport True False True]
  by (simp add: emptyAnalysis_def)

section \<open>Third-party disclosure adjustment\<close>

lemma lower_six:
  "toLowerCase sixTrackerHtml
   = ''cdn.mixpanel.com cdn.amplitude.com fullstory.com js.drift.com olark.com zendesk.com''"
  by (simp add: sixTrackerHtml_def toLowerCase_def toLowerChar_def lowerTable_def)

lemma other_six:
  "other (analyzeThirdPartyScripts sixTrackerHtml content)
   = [''Mixpanel'', ''Amplitude'', ''FullStory'', ''Drift'', ''Zendesk'', ''Olark'']"
  by (simp add: analyzeThirdPartyScripts_def Let_def lower_six trackers_def patternTest_def
      dedupe_def)

lemma lower_five:
  "toLowerCase fiveTrackerHtml
   = ''cdn.mixpanel.com cdn.amplitude.com fullstory.com js.drift.com olark.com''"
  by (simp add: fiveTrackerHtml_def toLowerCase_def toLowerChar_def lowerTable_def)

lemma other_five:
  "other (analyzeThirdPartyScripts fiveTrackerHtml content)
   = [''Mixpanel'', ''Amplitude'', ''FullStory'', ''Drift'', ''Olark'']"
  by (simp add: analyzeThirdPartyScripts_def Let_def lower_five trackers_def patternTest_def
      dedupe_def)

lemma mentions_none: "\<not> privacyPolicyMentions (analyzeThirdPartyScripts html [])"
  by (simp add: analyzeThirdPartyScripts_def Let_def toLowerCase_def)

lemma mentions_some:
  "privacyPolicyMentions
     (analyzeThirdPartyScripts html ''We share data with Third-Party services'')"
  by (simp add: analyzeThirdPartyScripts_def Let_def toLowerCase_def toLowerChar_def
      lowerTable_def)

lemma thirdPartyAdjustment_eq:
  "thirdPartyAdjustment r ssl hdr tps
   = (if 5 < length (other tps) \<and> \<not> privacyPolicyMentions tps then 10 else 0)"
  by (simp add: thirdPartyAdjustment_def adjustRiskScore_def Let_def)

text \<open>
  Claim C10. The third-party adjustment adds 10 exactly when more than five distinct
  trackers were detected and the page text has no generic disclosure wording, and adds
  nothing otherwise. The detected list never holds a tracker twice. A page with six
  trackers and no disclosure text gets the adjustment; the same page with disclosure
  text does not; a page with five trackers never does, whatever its text.
\<close>

theorem third_party_adjustment:
  "(thirdPartyAdjustment r ssl hdr tps = 10
      \<longleftrightarrow> 5 < length (other tps) \<and> \<not> privacyPolicyMentions tps)
   \<and> (thirdPartyAdjustment r ssl hdr tps = 0
      \<longleftrightarrow> \<not> (5 < length (other tps) \<and> \<not> privacyPolicyMentions tps))
   \<and> distinct (other (analyzeThirdPartyScripts html content))
   \<and> length (other (analyzeThirdPartyScripts sixTrackerHtml content)) = 6
   \<and> thirdPartyAdjustment r ssl hdr (analyzeThirdPartyScripts sixTrackerHtml []) = 10
   \<and> thirdPartyAdjustment r ssl hdr
        (analyzeThirdPartyScripts sixTrackerHtml ''We share data with Third-Party services'') = 0
   \<and> length (other (analyzeThirdPartyScripts fiveTrackerHtml content)) = 5
   \<and> thirdPartyAdjustment r ssl hdr (analyzeThirdPartyScripts fiveTrackerHtml content) = 0"
proof -
  have d: "distinct (other (analyzeThirdPartyScripts html content))"
    by (simp add: analyzeThirdPartyScripts_def Let_def dedupe_def)
  show ?thesis
    by (simp add: thirdPartyAdjustment_eq d other_six other_five mentions_none mentions_some)
qed

theorem third_party_adjustment_witness:
  "thirdPartyAdjustment 40 secureTransport allHeaders
      (analyzeThirdPartyScripts sixTrackerHtml []) = 10
   \<and> adjustRiskScore 40 secureTransport allHeaders
      (analyzeThirdPartyScripts sixTrackerHtml []) = 50
   \<and> adjustRiskScore 40 secureTransport allHeaders
      (analyzeThirdPartyScripts fiveTrackerHtml []) = 40"
proof -
  have "thirdPartyAdjustment 40 secureTransport allHeaders
          (analyzeThirdPartyScripts sixTrackerHtml []) = 10"
    and "thirdPartyAdjustment 40 secureTransport allHeaders
          (analyzeThirdPartyScripts fiveTrackerHtml []) = 0"
    using third_party_adjustment [of 40 secureTransport allHeaders
        "analyzeThirdPartyScripts sixTrackerHtml []" "sixTrackerHtml" "[]"]
    by simp_all
  then show ?thesis
    by (simp add: thirdPartyAdjustment_def adjustRiskScore_def Let_def secureTransport_def
        allHeaders_def)
qed

section \<open>The orchestrator\<close>

lemmas url_defs = newURL_def parseSpecial_def isPrintable_def Let_def isSlash_def
  isAuthorityEnd_def afterLastAt_def portOk_def portValue_def hostForbidden_def
  needsPlatform_def lastLabel_def toLowerCase_def toLowerChar_def lowerTable_def isDigit_def

lemma normalizeUrl_examples:
  "normalizeUrl ''google.com'' = ''https://google.com''"
  "normalizeUrl ''https://google.com/anything'' = ''https://google.com/anything''"
  "normalizeUrl ''fakegoogle.com'' = ''https://fakegoogle.com''"
  "normalizeUrl ''example.com'' = ''https://example.com''"
  "normalizeUrl ''ht!tp://bad'' = ''https://ht!tp://bad''"
  "normalizeUrl ''exa mple.com'' = ''https://exa mple.com''"
  by (simp_all add: normalizeUrl_def trim_def isWhiteSpace_def)

lemma newURL_google:
  "newURL w ''https://google.com'' = Some \<lparr> protocol = ''https:'', hostname = ''google.com'' \<rparr>"
  by (simp add: url_defs)

lemma newURL_google_path:
  "newURL w ''https://google.com/anything'' = Some \<lparr> protocol = ''https:'', hostname = ''google.com'' \<rparr>"
  by (simp add: url_defs)

lemma newURL_fakegoogle:
  "newURL w ''https://fakegoogle.com'' = Some \<lparr> protocol = ''https:'', hostname = ''fakegoogle.com'' \<rparr>"
  by (simp add: url_defs)

lemma newURL_example:
  "newURL w ''https://example.com'' = Some \<lparr> protocol = ''https:'', hostname = ''example.com'' \<rparr>"
  by (simp add: url_defs)

lemma newURL_bad:
  "newURL w ''https://ht!tp://bad'' = Some \<lparr> protocol = ''https:'', hostname = ''ht!tp'' \<rparr>"
  by (simp add: url_defs)

lemma newURL_space:
  "newURL w ''https://exa mple.com'' = None"
  by (simp add: url_defs)

lemma known_examples:
  "isKnownCompliant ''google.com''"
  "isKnownCompliant ''fakegoogle.com''"
  "\<not> isKnownCompliant ''example.com''"
  "\<not> isKnownCompliant ''ht!tp''"
  by (simp_all add: isKnownCompliant_def KNOWN_COMPLIANT_DOMAINS_def)

lemma replace_www_examples:
  "replaceFirst ''google.com'' ''www.'' [] = ''google.com''"
  "replaceFirst ''fakegoogle.com'' ''www.'' [] = ''fakegoogle.com''"
  "replaceFirst ''example.com'' ''www.'' [] = ''example.com''"
  "replaceFirst ''ht!tp'' ''www.'' [] = ''ht!tp''"
  by simp_all

lemma analyzeUrl_invalid:
  "\<not> falsyKey k \<Longrightarrow> cfg \<noteq> None \<Longrightarrow> newURL w (normalizeUrl url) = None
   \<Longrightarrow> analyzeUrl w url k cfg = (invalidUrl, [])"
  by (cases cfg) (simp_all add: analyzeUrl_def)

lemma analyzeUrl_known:
  "\<not> falsyKey k \<Longrightarrow> cfg \<noteq> None \<Longrightarrow> newURL w (normalizeUrl url) = Some u
   \<Longrightarrow> isKnownCompliant (replaceFirst (hostname u) ''www.'' [])
   \<Longrightarrow> analyzeUrl w url k cfg = (knownCompliantResult, [])"
  by (cases cfg) (simp_all add: analyzeUrl_def)

lemma analyzeUrl_scan:
  "\<not> falsyKey k \<Longrightarrow> cfg \<noteq> None \<Longrightarrow> newURL w (normalizeUrl url) = Some u
   \<Longrightarrow> \<not> isKnownCompliant (replaceFirst (hostname u) ''www.'' [])
   \<Longrightarrow> analyzeUrl w url k cfg =
       (case scanBody w (normalizeUrl url) of
          (Inl m, calls) \<Rightarrow> (scanFailed m, calls)
        | (Inr r, calls) \<Rightarrow> (r, calls))"
  by (cases cfg) (simp_all add: analyzeUrl_def)

lemma scanBody_calls: "\<exists>cs. snd (scanBody w n) = CallFirecrawl n # cs"
  by (simp add: scanBody_def Let_def split: scrapeResponse.split sum.split jsonParse.split prod.split)

lemma scanBody_fatal:
  "contentFetchFails w n \<or> modelCallFails w \<or> modelOutputUnparseable w
   \<Longrightarrow> \<exists>m. fst (scanBody w n) = Inl m"
  by (auto simp: scanBody_def Let_def contentFetchFails_def modelCallFails_def
      modelOutputUnparseable_def split: scrapeResponse.splits sum.splits jsonParse.splits prod.splits)

lemma scanBody_parsed:
  "firecrawl w n = ScrapeOk content links html \<Longrightarrow> content \<noteq> [] \<Longrightarrow> claude w = Inr text
   \<Longrightarrow> fst (scanBody w n) =
       (case JSON_parse w text of
          SyntaxError m \<Rightarrow> Inl m
        | JsonNull \<Rightarrow> Inl nullTypeError
        | JsonValue a \<Rightarrow>
            Inr (compileResult a (analyzeSecurityHeaders w n)
                   (analyzeThirdPartyScripts html content) (fst (validateSSL w n html))))"
  by (simp add: scanBody_def Let_def split: jsonParse.split prod.split)

lemma scanFailed_fields:
  "\<not> success (scanFailed m)" "riskScore (scanFailed m) = 0" "\<not> adaIssues (scanFailed m)"
  "aiRetentionIssues (scanFailed m) = Some False" "\<not> gdprIssues (scanFailed m)"
  "shadowAiIssues (scanFailed m) = Some False"
  "detectedIssues (scanFailed m) =
     [''Scan failed: '' @ userFriendlyError m,
      ''This is a technical error, not a compliance issue with the target site.'']"
  by (simp_all add: scanFailed_def errorResult_def)

text \<open>
  Claim C7, as amended. With the Firecrawl key and the Bedrock configuration supplied,
  the inputs \<open>google.com\<close> and \<open>https://google.com/anything\<close> return the fixed
  baseline: score 15, all four headers present with header score 100, SSL valid, HTTPS
  enforced, no mixed content, no issues, not eligible for a cure notice. No request is
  made: neither the content fetcher nor the text-generation service is invoked.
\<close>

theorem known_domain_short_circuit:
  assumes "\<not> falsyKey firecrawlApiKey" and "bedrockConfig \<noteq> None"
    and "url = ''google.com'' \<or> url = ''https://google.com/anything''"
  shows "analyzeUrl w url firecrawlApiKey bedrockConfig = (knownCompliantResult, [])
    \<and> success knownCompliantResult
    \<and> riskScore knownCompliantResult = 15
    \<and> securityHeaders knownCompliantResult = Some allHeaders
    \<and> sslValidation knownCompliantResult = Some secureTransport
    \<and> detectedIssues knownCompliantResult = []
    \<and> cureNoticeEligible knownCompliantResult = Some False"
proof -
  from assms(3) have "\<exists>u. newURL w (normalizeUrl url) = Some u
      \<and> isKnownCompliant (replaceFirst (hostname u) ''www.'' [])"
    by (auto simp: normalizeUrl_examples newURL_google newURL_google_path
        replace_www_examples known_examples)
  then obtain u where "newURL w (normalizeUrl url) = Some u"
    and "isKnownCompliant (replaceFirst (hostname u) ''www.'' [])"
    by blast
  with assms(1,2) have "analyzeUrl w url firecrawlApiKey bedrockConfig = (knownCompliantResult, [])"
    by (rule analyzeUrl_known)
  then show ?thesis
    by (simp add: knownCompliantResult_def allHeaders_def secureTransport_def)
qed

theorem known_domain_short_circuit_witness:
  "analyzeUrl offlineWorld ''google.com'' (Some ''fc-key'') (Some sampleConfig)
     = (knownCompliantResult, [])
   \<and> analyzeUrl offlineWorld ''https://google.com/anything'' (Some ''fc-key'') (Some sampleConfig)
     = (knownCompliantResult, [])"
  using known_domain_short_circuit [of "Some ''fc-key''" "Some sampleConfig" "''google.com''" offlineWorld]
    known_domain_short_circuit [of "Some ''fc-key''" "Some sampleConfig"
      "''https://google.com/anything''" offlineWorld]
  by (simp add: falsyKey_def)

text \<open>
  Claim C7 as stated fails: \<open>analyzeUrl\<close> checks its two credentials before it looks
  at the URL, so without a Firecrawl key the input \<open>google.com\<close> returns the
  configuration error (\<open>success\<close> false, score 0), not the baseline.
\<close>

theorem missing_key_counterexample:
  "\<not> success (fst (analyzeUrl offlineWorld ''google.com'' None (Some sampleConfig)))
   \<and> riskScore (fst (analyzeUrl offlineWorld ''google.com'' None (Some sampleConfig))) = 0
   \<and> detectedIssues (fst (analyzeUrl offlineWorld ''google.com'' None (Some sampleConfig)))
       \<noteq> []"
  by (simp add: analyzeUrl_def falsyKey_def missingFirecrawlKey_def errorResult_def)

text \<open>
  Claim C8, on the code. The allow-list test is \<open>domain.includes(d)\<close>, a substring
  test: the host \<open>fakegoogle.com\<close>, whose registrable domain is not listed, contains
  \<open>google.com\<close> and gets the baseline result without any request.
\<close>

theorem substring_match_short_circuits:
  assumes "\<not> falsyKey firecrawlApiKey" and "bedrockConfig \<noteq> None"
  shows "analyzeUrl w ''fakegoogle.com'' firecrawlApiKey bedrockConfig = (knownCompliantResult, [])"
proof -
  have "newURL w (normalizeUrl ''fakegoogle.com'')
        = Some \<lparr> protocol = ''https:'', hostname = ''fakegoogle.com'' \<rparr>"
    by (simp add: normalizeUrl_examples newURL_fakegoogle)
  moreover have "isKnownCompliant (replaceFirst
      (hostname \<lparr> protocol = ''https:'', hostname = ''fakegoogle.com'' \<rparr>) ''www.'' [])"
    by (simp add: replace_www_examples known_examples)
  ultimately show ?thesis
    using assms by (intro analyzeUrl_known)
qed

theorem substring_match_short_circuits_witness:
  "analyzeUrl offlineWorld ''fakegoogle.com'' (Some ''fc-key'') (Some sampleConfig)
     = (knownCompliantResult, [])"
  using substring_match_short_circuits [of "Some ''fc-key''" "Some sampleConfig" offlineWorld]
  by (simp add: falsyKey_def)

text \<open>
  Claim C9, as amended. \<open>example.com\<close> is normalised to \<open>https://example.com\<close>. The
  input \<open>ht!tp://bad\<close> starts with neither \<open>http://\<close> nor \<open>https://\<close>, so it becomes
  \<open>https://ht!tp://bad\<close>, which parses as a URL with host \<open>ht!tp\<close>: it is not rejected,
  and with the credentials configured the scan goes on to the content fetcher. An input
  whose normalised form does not parse, such as \<open>exa mple.com\<close>, returns the
  input-error result (\<open>success\<close> false, issue \<open>Invalid URL format\<close>) with no request.
\<close>

theorem url_normalization:
  "normalizeUrl ''example.com'' = ''https://example.com''
   \<and> normalizeUrl ''ht!tp://bad'' = ''https://ht!tp://bad''
   \<and> newURL w (normalizeUrl ''ht!tp://bad'') = Some \<lparr> protocol = ''https:'', hostname = ''ht!tp'' \<rparr>
   \<and> (\<not> falsyKey k \<and> cfg \<noteq> None
        \<longrightarrow> (\<exists>cs. snd (analyzeUrl w ''ht!tp://bad'' k cfg) = CallFirecrawl ''https://ht!tp://bad'' # cs))
   \<and> (\<not> falsyKey k \<and> cfg \<noteq> None \<and> newURL w (normalizeUrl url) = None
        \<longrightarrow> analyzeUrl w url k cfg = (invalidUrl, []))
   \<and> newURL w (normalizeUrl ''exa mple.com'') = None
   \<and> \<not> success invalidUrl
   \<and> detectedIssues invalidUrl = [''Invalid URL format'']"
proof -
  have bad: "newURL w (normalizeUrl ''ht!tp://bad'')
             = Some \<lparr> protocol = ''https:'', hostname = ''ht!tp'' \<rparr>"
    by (simp add: normalizeUrl_examples newURL_bad)
  have scan: "\<exists>cs. snd (analyzeUrl w ''ht!tp://bad'' k cfg) = CallFirecrawl ''https://ht!tp://bad'' # cs"
    if "\<not> falsyKey k" and "cfg \<noteq> None"
  proof -
    have "\<not> isKnownCompliant (replaceFirst
        (hostname \<lparr> protocol = ''https:'', hostname = ''ht!tp'' \<rparr>) ''www.'' [])"
      by (simp add: replace_www_examples known_examples)
    with that bad have "analyzeUrl w ''ht!tp://bad'' k cfg =
       (case scanBody w (normalizeUrl ''ht!tp://bad'') of
          (Inl m, calls) \<Rightarrow> (scanFailed m, calls)
        | (Inr r, calls) \<Rightarrow> (r, calls))"
      by (intro analyzeUrl_scan)
    moreover obtain cs where "snd (scanBody w ''https://ht!tp://bad'') = CallFirecrawl ''https://ht!tp://bad'' # cs"
      using scanBody_calls by blast
    ultimately show ?thesis
      by (auto simp: normalizeUrl_examples split: prod.splits sum.splits)
  qed
  have inv: "analyzeUrl w url k cfg = (invalidUrl, [])"
    if "\<not> falsyKey k" and "cfg \<noteq> None" and "newURL w (normalizeUrl url) = None"
    using that by (rule analyzeUrl_invalid)
  have sp: "newURL w (normalizeUrl ''exa mple.com'') = None"
    by (simp add: normalizeUrl_examples newURL_space)
  show ?thesis
    using bad scan inv sp
    by (simp add: normalizeUrl_examples invalidUrl_def errorResult_def)
qed

theorem url_normalization_witness:
  "analyzeUrl offlineWorld ''exa mple.com'' (Some ''fc-key'') (Some sampleConfig) = (invalidUrl, [])
   \<and> (\<exists>cs. snd (analyzeUrl offlineWorld ''ht!tp://bad'' (Some ''fc-key'') (Some sampleConfig))
          = CallFirecrawl ''https://ht!tp://bad'' # cs)"
  using url_normalization [of offlineWorld "Some ''fc-key''" "Some sampleConfig" "''exa mple.com''"]
  by (simp add: falsyKey_def)

text \<open>
  Claim C9 as stated fails: with the content fetcher unreachable, \<open>ht!tp://bad\<close> is
  scanned (a scrape request for \<open>https://ht!tp://bad\<close> is made) and the issue list is
  that of a failed scan, not \<open>Invalid URL format\<close>.
\<close>

theorem bad_scheme_counterexample:
  "detectedIssues (fst (analyzeUrl offlineWorld ''ht!tp://bad'' (Some ''fc-key'') (Some sampleConfig)))
     = [''Scan failed: fetch failed'',
        ''This is a technical error, not a compliance issue with the target site.'']
   \<and> snd (analyzeUrl offlineWorld ''ht!tp://bad'' (Some ''fc-key'') (Some sampleConfig))
     = [CallFirecrawl ''https://ht!tp://bad'']"
proof -
  have "analyzeUrl offlineWorld ''ht!tp://bad'' (Some ''fc-key'') (Some sampleConfig) =
       (case scanBody offlineWorld (normalizeUrl ''ht!tp://bad'') of
          (Inl m, calls) \<Rightarrow> (scanFailed m, calls)
        | (Inr r, calls) \<Rightarrow> (r, calls))"
    by (rule analyzeUrl_scan [where u = "\<lparr> protocol = ''https:'', hostname = ''ht!tp'' \<rparr>"])
      (simp_all add: falsyKey_def normalizeUrl_examples newURL_bad replace_www_examples known_examples)
  moreover have "scanBody offlineWorld ''https://ht!tp://bad''
      = (Inl ''fetch failed'', [CallFirecrawl ''https://ht!tp://bad''])"
    by (simp add: scanBody_def offlineWorld_def replyWorld_def)
  moreover have "userFriendlyError ''fetch failed'' = ''fetch failed''"
    by (simp add: userFriendlyError_def)
  ultimately show ?thesis
    by (simp add: normalizeUrl_examples scanFailed_fields)
qed

text \<open>
  Claim C6, as amended. On every fatal path (the content fetch fails, the model call
  fails, or the model's output is unparseable: not JSON, or the JSON value \<open>null\<close>)
  \<open>analyzeUrl\<close> returns a result and does not raise: \<open>success\<close> is false, the score
  is 0, each of the four framework-issue flags is false, and the issue list is
  \<open>Scan failed: ...\<close> followed by the sentence that the failure is technical.
\<close>

theorem fatal_paths_return_error_result:
  assumes "\<not> falsyKey firecrawlApiKey" and "bedrockConfig \<noteq> None"
    and "newURL w (normalizeUrl url) = Some u"
    and "\<not> isKnownCompliant (replaceFirst (hostname u) ''www.'' [])"
    and "contentFetchFails w (normalizeUrl url) \<or> modelCallFails w \<or> modelOutputUnparseable w"
  shows "\<exists>m. fst (analyzeUrl w url firecrawlApiKey bedrockConfig) = scanFailed m
    \<and> \<not> success (scanFailed m)
    \<and> riskScore (scanFailed m) = 0
    \<and> \<not> adaIssues (scanFailed m)
    \<and> aiRetentionIssues (scanFailed m) = Some False
    \<and> \<not> gdprIssues (scanFailed m)
    \<and> shadowAiIssues (scanFailed m) = Some False
    \<and> detectedIssues (scanFailed m) =
        [''Scan failed: '' @ userFriendlyError m,
         ''This is a technical error, not a compliance issue with the target site.'']"
proof -
  from assms(5) obtain m where m: "fst (scanBody w (normalizeUrl url)) = Inl m"
    using scanBody_fatal by blast
  have "analyzeUrl w url firecrawlApiKey bedrockConfig =
       (case scanBody w (normalizeUrl url) of
          (Inl m, calls) \<Rightarrow> (scanFailed m, calls)
        | (Inr r, calls) \<Rightarrow> (r, calls))"
    using assms(1-4) by (rule analyzeUrl_scan)
  with m have "fst (analyzeUrl w url firecrawlApiKey bedrockConfig) = scanFailed m"
    by (cases "scanBody w (normalizeUrl url)") simp
  then show ?thesis
    by (auto simp: scanFailed_fields)
qed

lemma offline_fetch_fails: "contentFetchFails offlineWorld n"
  by (simp add: contentFetchFails_def offlineWorld_def replyWorld_def)

theorem fatal_paths_return_error_result_witness:
  "\<exists>m. fst (analyzeUrl offlineWorld ''example.com'' (Some ''fc-key'') (Some sampleConfig))
       = scanFailed m
    \<and> \<not> success (scanFailed m)
    \<and> riskScore (scanFailed m) = 0
    \<and> \<not> adaIssues (scanFailed m)
    \<and> aiRetentionIssues (scanFailed m) = Some False
    \<and> \<not> gdprIssues (scanFailed m)
    \<and> shadowAiIssues (scanFailed m) = Some False
    \<and> detectedIssues (scanFailed m) =
        [''Scan failed: '' @ userFriendlyError m,
         ''This is a technical error, not a compliance issue with the target site.'']"
  by (rule fatal_paths_return_error_result
      [where u = "\<lparr> protocol = ''https:'', hostname = ''example.com'' \<rparr>"])
    (simp_all add: falsyKey_def normalizeUrl_examples newURL_example replace_www_examples
      known_examples offline_fetch_fails)

lemma analyzeUrl_offline_example:
  "analyzeUrl offlineWorld ''example.com'' (Some ''fc-key'') (Some sampleConfig)
   = (scanFailed ''fetch failed'', [CallFirecrawl ''https://example.com''])"
proof -
  have "analyzeUrl offlineWorld ''example.com'' (Some ''fc-key'') (Some sampleConfig) =
       (case scanBody offlineWorld (normalizeUrl ''example.com'') of
          (Inl m, calls) \<Rightarrow> (scanFailed m, calls)
        | (Inr r, calls) \<Rightarrow> (r, calls))"
    by (rule analyzeUrl_scan [where u = "\<lparr> protocol = ''https:'', hostname = ''example.com'' \<rparr>"])
      (simp_all add: falsyKey_def normalizeUrl_examples newURL_example replace_www_examples
        known_examples)
  moreover have "scanBody offlineWorld ''https://example.com''
      = (Inl ''fetch failed'', [CallFirecrawl ''https://example.com''])"
    by (simp add: scanBody_def offlineWorld_def replyWorld_def)
  ultimately show ?thesis
    by (simp add: normalizeUrl_examples)
qed

text \<open>
  Claim C6 as stated fails: when the content fetch fails, the four framework-issue
  flags of the returned result are false, not true.
\<close>

theorem flags_false_on_failure_counterexample:
  "\<not> success (fst (analyzeUrl offlineWorld ''example.com'' (Some ''fc-key'') (Some sampleConfig)))
   \<and> \<not> adaIssues (fst (analyzeUrl offlineWorld ''example.com'' (Some ''fc-key'') (Some sampleConfig)))
   \<and> aiRetentionIssues (fst (analyzeUrl offlineWorld ''example.com'' (Some ''fc-key'') (Some sampleConfig)))
       = Some False
   \<and> \<not> gdprIssues (fst (analyzeUrl offlineWorld ''example.com'' (Some ''fc-key'') (Some sampleConfig)))
   \<and> shadowAiIssues (fst (analyzeUrl offlineWorld ''example.com'' (Some ''fc-key'') (Some sampleConfig)))
       = Some False"
  by (simp add: analyzeUrl_offline_example scanFailed_fields)

lemma compileResult_defaults:
  "success (compileResult a hdr tps ssl)"
  "analysis.riskScore a = None \<Longrightarrow>
     riskScore (compileResult a hdr tps ssl) = min (adjustRiskScore 50 ssl hdr tps) 100"
  "analysis.hasCookieBanner a = None \<Longrightarrow> \<not> hasCookieBanner (compileResult a hdr tps ssl)"
  "analysis.hasPrivacyPolicy a = None \<Longrightarrow> \<not> hasPrivacyPolicy (compileResult a hdr tps ssl)"
  "analysis.hasAiFeatures a = None \<Longrightarrow> \<not> hasAiFeatures (compileResult a hdr tps ssl)"
  "analysis.hasAiDisclosure a = None \<Longrightarrow> \<not> hasAiDisclosure (compileResult a hdr tps ssl)"
  "analysis.adaIssues a = None \<Longrightarrow> \<not> adaIssues (compileResult a hdr tps ssl)"
  "analysis.issues a = None \<Longrightarrow> detectedIssues (compileResult a hdr tps ssl) = []"
  by (simp_all add: compileResult_def baseRiskScore_def truthy_def)

text \<open>
  Claim C3, as amended. When the text-generation service's answer is not parseable as
  JSON, the scan is a hard failure: the technical-error result is returned. When the
  answer parses to an object, the scan succeeds even if required fields are missing:
  an absent \<open>riskScore\<close> is taken as 50 before the adjustments, an absent boolean as
  false, and absent \<open>issues\<close> as the empty list.
\<close>

theorem model_output_parsing:
  assumes "\<not> falsyKey firecrawlApiKey" and "bedrockConfig \<noteq> None"
    and "newURL w (normalizeUrl url) = Some u"
    and "\<not> isKnownCompliant (replaceFirst (hostname u) ''www.'' [])"
    and "firecrawl w (normalizeUrl url) = ScrapeOk content links html" and "content \<noteq> []"
    and "claude w = Inr analysisText"
  shows "(JSON_parse w analysisText = SyntaxError m
            \<longrightarrow> fst (analyzeUrl w url firecrawlApiKey bedrockConfig) = scanFailed m
              \<and> \<not> success (scanFailed m)
              \<and> detectedIssues (scanFailed m) =
                  [''Scan failed: '' @ userFriendlyError m,
                   ''This is a technical error, not a compliance issue with the target site.''])
    \<and> (JSON_parse w analysisText = JsonValue a
            \<longrightarrow> (\<exists>hdr tps ssl.
                  fst (analyzeUrl w url firecrawlApiKey bedrockConfig) = compileResult a hdr tps ssl
                  \<and> success (compileResult a hdr tps ssl)
                  \<and> (analysis.riskScore a = None \<longrightarrow>
                       riskScore (compileResult a hdr tps ssl)
                       = min (adjustRiskScore 50 ssl hdr tps) 100)
                  \<and> (analysis.hasCookieBanner a = None \<longrightarrow>
                       \<not> hasCookieBanner (compileResult a hdr tps ssl))
                  \<and> (analysis.hasPrivacyPolicy a = None \<longrightarrow>
                       \<not> hasPrivacyPolicy (compileResult a hdr tps ssl))
                  \<and> (analysis.hasAiFeatures a = None \<longrightarrow>
                       \<not> hasAiFeatures (compileResult a hdr tps ssl))
                  \<and> (analysis.hasAiDisclosure a = None \<longrightarrow>
                       \<not> hasAiDisclosure (compileResult a hdr tps ssl))
                  \<and> (analysis.adaIssues a = None \<longrightarrow>
                       \<not> adaIssues (compileResult a hdr tps ssl))
                  \<and> (analysis.issues a = None \<longrightarrow>
                       detectedIssues (compileResult a hdr tps ssl) = [])))"
proof -
  let ?n = "normalizeUrl url"
  have run: "analyzeUrl w url firecrawlApiKey bedrockConfig =
       (case scanBody w ?n of
          (Inl m, calls) \<Rightarrow> (scanFailed m, calls)
        | (Inr r, calls) \<Rightarrow> (r, calls))"
    using assms(1-4) by (rule analyzeUrl_scan)
  have body: "fst (scanBody w ?n) =
       (case JSON_parse w analysisText of
          SyntaxError m \<Rightarrow> Inl m
        | JsonNull \<Rightarrow> Inl nullTypeError
        | JsonValue a \<Rightarrow>
            Inr (compileResult a (analyzeSecurityHeaders w ?n)
                   (analyzeThirdPartyScripts html content) (fst (validateSSL w ?n html))))"
    using assms(5-7) by (rule scanBody_parsed)
  have bad: "fst (analyzeUrl w url firecrawlApiKey bedrockConfig) = scanFailed m"
    if "JSON_parse w analysisText = SyntaxError m"
    using that run body by (cases "scanBody w ?n") simp
  have good: "fst (analyzeUrl w url firecrawlApiKey bedrockConfig)
      = compileResult a (analyzeSecurityHeaders w ?n)
          (analyzeThirdPartyScripts html content) (fst (validateSSL w ?n html))"
    if "JSON_parse w analysisText = JsonValue a"
    using that run body by (cases "scanBody w ?n") simp
  show ?thesis
  proof (intro conjI impI)
    assume "JSON_parse w analysisText = JsonValue a"
    then have "fst (analyzeUrl w url firecrawlApiKey bedrockConfig)
      = compileResult a (analyzeSecurityHeaders w ?n)
          (analyzeThirdPartyScripts html content) (fst (validateSSL w ?n html))"
      by (rule good)
    then show "\<exists>hdr tps ssl.
                  fst (analyzeUrl w url firecrawlApiKey bedrockConfig) = compileResult a hdr tps ssl
                  \<and> success (compileResult a hdr tps ssl)
                  \<and> (analysis.riskScore a = None \<longrightarrow>
                       riskScore (compileResult a hdr tps ssl)
                       = min (adjustRiskScore 50 ssl hdr tps) 100)
                  \<and> (analysis.hasCookieBanner a = None \<longrightarrow>
                       \<not> hasCookieBanner (compileResult a hdr tps ssl))
                  \<and> (analysis.hasPrivacyPolicy a = None \<longrightarrow>
                       \<not> hasPrivacyPolicy (compileResult a hdr tps ssl))
                  \<and> (analysis.hasAiFeatures a = None \<longrightarrow>
                       \<not> hasAiFeatures (compileResult a hdr tps ssl))
                  \<and> (analysis.hasAiDisclosure a = None \<longrightarrow>
                       \<not> hasAiDisclosure (compileResult a hdr tps ssl))
                  \<and> (analysis.adaIssues a = None \<longrightarrow>
                       \<not> adaIssues (compileResult a hdr tps ssl))
                  \<and> (analysis.issues a = None \<longrightarrow>
                       detectedIssues (compileResult a hdr tps ssl) = [])"
      using compileResult_defaults by metis
  qed (simp_all add: bad scanFailed_fields)
qed

lemma replyWorld_fields:
  "firecrawl (replyWorld reply) n = ScrapeOk ''# Welcome'' [] ''<html></html>''"
  "claude (replyWorld reply) = reply"
  "JSON_parse (replyWorld reply) = sampleParse"
  "headFetch (replyWorld reply) n = Some [''strict-transport-security'', ''x-frame-options'']"
  "httpProbe (replyWorld reply) n = Some 301"
  by (simp_all add: replyWorld_def)

theorem model_output_parsing_witness:
  "fst (analyzeUrl (replyWorld (Inr ''The site looks fine.'')) ''example.com''
          (Some ''fc-key'') (Some sampleConfig))
     = scanFailed ''Unexpected token''
   \<and> success (fst (analyzeUrl (replyWorld (Inr ''{}'')) ''example.com''
          (Some ''fc-key'') (Some sampleConfig)))"
proof -
  have "fst (analyzeUrl (replyWorld (Inr ''The site looks fine.'')) ''example.com''
          (Some ''fc-key'') (Some sampleConfig)) = scanFailed ''Unexpected token''"
    using model_output_parsing [of "Some ''fc-key''" "Some sampleConfig"
        "replyWorld (Inr ''The site looks fine.'')" "''example.com''"
        "\<lparr> protocol = ''https:'', hostname = ''example.com'' \<rparr>"
        "''# Welcome''" "[]" "''<html></html>''" "''The site looks fine.''"
        "''Unexpected token''" emptyAnalysis]
    by (simp add: falsyKey_def normalizeUrl_examples newURL_example replace_www_examples
        known_examples replyWorld_fields sampleParse_def)
  moreover have "success (fst (analyzeUrl (replyWorld (Inr ''{}'')) ''example.com''
          (Some ''fc-key'') (Some sampleConfig)))"
    using model_output_parsing [of "Some ''fc-key''" "Some sampleConfig"
        "replyWorld (Inr ''{}'')" "''example.com''"
        "\<lparr> protocol = ''https:'', hostname = ''example.com'' \<rparr>"
        "''# Welcome''" "[]" "''<html></html>''" "''{}''"
        "''Unexpected token''" emptyAnalysis]
    by (auto simp: falsyKey_def normalizeUrl_examples newURL_example replace_www_examples
        known_examples replyWorld_fields sampleParse_def)
  ultimately show ?thesis by simp
qed

lemma analyzeUrl_empty_object:
  "fst (analyzeUrl (replyWorld (Inr ''{}'')) ''example.com'' (Some ''fc-key'') (Some sampleConfig))
   = compileResult emptyAnalysis
       (analyzeSecurityHeaders (replyWorld (Inr ''{}'')) ''https://example.com'')
       (analyzeThirdPartyScripts ''<html></html>'' ''# Welcome'')
       (fst (validateSSL (replyWorld (Inr ''{}'')) ''https://example.com'' ''<html></html>''))"
proof -
  have "analyzeUrl (replyWorld (Inr ''{}'')) ''example.com'' (Some ''fc-key'') (Some sampleConfig) =
       (case scanBody (replyWorld (Inr ''{}'')) (normalizeUrl ''example.com'') of
          (Inl m, calls) \<Rightarrow> (scanFailed m, calls)
        | (Inr r, calls) \<Rightarrow> (r, calls))"
    by (rule analyzeUrl_scan [where u = "\<lparr> protocol = ''https:'', hostname = ''example.com'' \<rparr>"])
      (simp_all add: falsyKey_def normalizeUrl_examples newURL_example replace_www_examples
        known_examples)
  moreover have "fst (scanBody (replyWorld (Inr ''{}'')) ''https://example.com'') =
        Inr (compileResult emptyAnalysis
               (analyzeSecurityHeaders (replyWorld (Inr ''{}'')) ''https://example.com'')
               (analyzeThirdPartyScripts ''<html></html>'' ''# Welcome'')
               (fst (validateSSL (replyWorld (Inr ''{}'')) ''https://example.com'' ''<html></html>'')))"
    using scanBody_parsed [of "replyWorld (Inr ''{}'')" "''https://example.com''"
        "''# Welcome''" "[]" "''<html></html>''" "''{}''"]
    by (simp add: replyWorld_fields sampleParse_def)
  ultimately show ?thesis
    by (cases "scanBody (replyWorld (Inr ''{}'')) ''https://example.com''")
      (simp add: normalizeUrl_examples)
qed

lemma empty_object_evidence:
  "score (analyzeSecurityHeaders (replyWorld (Inr ''{}'')) ''https://example.com'') = 50"
  "other (analyzeThirdPartyScripts ''<html></html>'' ''# Welcome'') = []"
  "hasSSL (fst (validateSSL (replyWorld (Inr ''{}'')) ''https://example.com'' ''<html></html>''))"
  "\<not> mixedContent (fst (validateSSL (replyWorld (Inr ''{}'')) ''https://example.com'' ''<html></html>''))"
  by (simp_all add: analyzeSecurityHeaders_def replyWorld_fields Let_def validateSSL_def newURL_example
      analyzeThirdPartyScripts_def toLowerCase_def toLowerChar_def lowerTable_def trackers_def
      patternTest_def dedupe_def)

text \<open>
  Claim C3 as stated fails: the answer \<open>{}\<close>, which has none of the required
  fields, gives a successful scan with score 50, no privacy policy, no accessibility
  issue and an empty issue list.
\<close>

theorem missing_fields_defaulted_counterexample:
  "success (fst (analyzeUrl (replyWorld (Inr ''{}'')) ''example.com'' (Some ''fc-key'') (Some sampleConfig)))
   \<and> riskScore (fst (analyzeUrl (replyWorld (Inr ''{}'')) ''example.com'' (Some ''fc-key'') (Some sampleConfig))) = 50
   \<and> \<not> hasPrivacyPolicy (fst (analyzeUrl (replyWorld (Inr ''{}'')) ''example.com'' (Some ''fc-key'') (Some sampleConfig)))
   \<and> \<not> adaIssues (fst (analyzeUrl (replyWorld (Inr ''{}'')) ''example.com'' (Some ''fc-key'') (Some sampleConfig)))
   \<and> detectedIssues (fst (analyzeUrl (replyWorld (Inr ''{}'')) ''example.com'' (Some ''fc-key'') (Some sampleConfig))) = []"
  unfolding analyzeUrl_empty_object
  by (simp add: compileResult_def baseRiskScore_def adjustRiskScore_def Let_def emptyAnalysis_def
      truthy_def empty_object_evidence)

end
